theory Spec2Isabelle
  imports Main
begin

section \<open>JavaScript strings and Node's POSIX path functions\<close>

text \<open>
  The analysis engine is \<^verbatim>\<open>bin/agents-analyze.js\<close>. Strings are modelled as
  \<^typ>\<open>string\<close>, one \<^typ>\<open>char\<close> per character of the JavaScript string; every
  character that the engine looks for is ASCII. The string methods of the language and the
  functions of Node's \<^verbatim>\<open>path\<close> module (POSIX flavour) are not part of the repository;
  they are modelled here as far as the engine calls them.
\<close>

text \<open>\<^verbatim>\<open>s.startsWith(p)\<close>\<close>

fun startsWith :: "string \<Rightarrow> string \<Rightarrow> bool" where
  "startsWith s [] = True"
| "startsWith [] (p # ps) = False"
| "startsWith (c # cs) (p # ps) = (c = p \<and> startsWith cs ps)"

text \<open>\<^verbatim>\<open>s.includes(p)\<close>: \<open>p\<close> occurs in \<open>s\<close> as a contiguous substring.\<close>

fun str_includes :: "string \<Rightarrow> string \<Rightarrow> bool" where
  "str_includes [] p = (p = [])"
| "str_includes (c # cs) p = (startsWith (c # cs) p \<or> str_includes cs p)"

text \<open>A regular expression of the form \<^verbatim>\<open>/lit$/\<close> matches exactly the strings that end in \<open>lit\<close>.\<close>

definition endsWith :: "string \<Rightarrow> string \<Rightarrow> bool" where
  "endsWith s p = startsWith (rev s) (rev p)"

text \<open>\<^verbatim>\<open>s.split(c)\<close> for a one-character separator: never the empty array.\<close>

fun split_chr :: "char \<Rightarrow> string \<Rightarrow> string list" where
  "split_chr c [] = [[]]"
| "split_chr c (x # xs) =
     (if x = c then [] # split_chr c xs
      else (case split_chr c xs of
              [] \<Rightarrow> [[x]]
            | w # ws \<Rightarrow> (x # w) # ws))"

text \<open>\<^verbatim>\<open>xs.join(sep)\<close> on an array of strings.\<close>

fun join :: "string \<Rightarrow> string list \<Rightarrow> string" where
  "join sep [] = []"
| "join sep [x] = x"
| "join sep (x # y # ys) = x @ sep @ join sep (y # ys)"

text \<open>
  The last component of a path, as \<^verbatim>\<open>path.basename\<close> and \<^verbatim>\<open>path.extname\<close> both find it:
  trailing separators are dropped, then everything after the last remaining separator is kept.
\<close>

definition lastSegment :: "string \<Rightarrow> string" where
  "lastSegment p =
     rev (takeWhile (\<lambda>c. c \<noteq> CHR ''/'') (dropWhile (\<lambda>c. c = CHR ''/'') (rev p)))"

text \<open>\<^verbatim>\<open>path.basename(p)\<close>\<close>

definition basename :: "string \<Rightarrow> string" where
  "basename p = lastSegment p"

text \<open>
  \<^verbatim>\<open>path.extname(p)\<close>: from the last dot of the last component to its end; empty when
  there is no dot, when the only dot is the first character of the component, and for the
  component \<^verbatim>\<open>..\<close>.
\<close>

definition extname :: "string \<Rightarrow> string" where
  "extname p =
     (let b = lastSegment p;
          e = rev (takeWhile (\<lambda>c. c \<noteq> CHR ''.'') (rev b))
      in if CHR ''.'' \<notin> set b then []
         else if length e + 1 = length b then []
         else if b = ''..'' then []
         else CHR ''.'' # e)"

text \<open>
  \<^verbatim>\<open>path.basename(p, suffix)\<close>: the suffix is removed from the last component when the
  component ends with it and is longer than it. The engine passes \<^verbatim>\<open>path.extname(p)\<close> of
  the same path as the suffix, which is empty or a proper ending of the last component.
\<close>

definition basename_ext :: "string \<Rightarrow> string \<Rightarrow> string" where
  "basename_ext p suffix =
     (let b = lastSegment p
      in if suffix \<noteq> [] \<and> length suffix \<le> length p \<and> suffix = p then []
         else if suffix \<noteq> [] \<and> length suffix < length b \<and> endsWith b suffix
         then take (length b - length suffix) b
         else b)"

text \<open>
  The normalisation of a path that is shared by \<^verbatim>\<open>path.resolve\<close>, \<^verbatim>\<open>path.normalize\<close> and
  \<^verbatim>\<open>path.join\<close>, on the list of components: empty and \<^verbatim>\<open>.\<close> components vanish,
  \<^verbatim>\<open>..\<close> removes the component before it; where there is none to remove it is kept
  in a relative path (\<open>allowAboveRoot\<close>) and dropped in an absolute one. The accumulator
  holds the components kept so far, last one first.
\<close>

fun normalizeSegs :: "bool \<Rightarrow> string list \<Rightarrow> string list \<Rightarrow> string list" where
  "normalizeSegs allowAboveRoot acc [] = rev acc"
| "normalizeSegs allowAboveRoot acc (s # ss) =
     (if s = [] \<or> s = ''.'' then normalizeSegs allowAboveRoot acc ss
      else if s = ''..'' then
        (if acc \<noteq> [] \<and> hd acc \<noteq> ''..'' then normalizeSegs allowAboveRoot (tl acc) ss
         else if allowAboveRoot then normalizeSegs allowAboveRoot (''..'' # acc) ss
         else normalizeSegs allowAboveRoot acc ss)
      else normalizeSegs allowAboveRoot (s # acc) ss)"

text \<open>
  \<^verbatim>\<open>path.resolve(p)\<close> as the list of components of the resulting absolute path: a relative
  path is taken from the working directory \<open>cwd\<close>, which is absolute.
\<close>

definition resolve :: "string \<Rightarrow> string \<Rightarrow> string list" where
  "resolve cwd p =
     normalizeSegs False []
       (split_chr CHR ''/'' (if startsWith p ''/'' then p else cwd @ ''/'' @ p))"

text \<open>\<^verbatim>\<open>path.normalize(p)\<close>\<close>

definition normalize :: "string \<Rightarrow> string" where
  "normalize p =
     (if p = [] then ''.''
      else
        (let isAbsolute = startsWith p ''/'';
             trailingSeparator = endsWith p ''/'';
             q = join ''/'' (normalizeSegs (\<not> isAbsolute) [] (split_chr CHR ''/'' p))
         in if q = [] then (if isAbsolute then ''/'' else if trailingSeparator then ''./'' else ''.'')
            else (if isAbsolute then ''/'' else []) @ q @ (if trailingSeparator then ''/'' else [])))"

text \<open>\<^verbatim>\<open>path.join(a, b)\<close>: the non-empty arguments, joined by a separator and normalised.\<close>

definition pathJoin :: "string \<Rightarrow> string \<Rightarrow> string" where
  "pathJoin a b =
     (if a = [] \<and> b = [] then ''.''
      else if a = [] then normalize b
      else if b = [] then normalize a
      else normalize (a @ ''/'' @ b))"

fun dropCommon :: "string list \<Rightarrow> string list \<Rightarrow> string list \<times> string list" where
  "dropCommon (x # xs) (y # ys) = (if x = y then dropCommon xs ys else (x # xs, y # ys))"
| "dropCommon xs ys = (xs, ys)"

text \<open>
  \<^verbatim>\<open>path.relative(from, to)\<close>: both paths are resolved, their common leading components are
  dropped, and the result climbs out of what is left of \<open>from\<close> and descends into what is
  left of \<open>to\<close>.
\<close>

definition relative :: "string \<Rightarrow> string \<Rightarrow> string \<Rightarrow> string" where
  "relative cwd from to =
     (case dropCommon (resolve cwd from) (resolve cwd to) of
        (f, t) \<Rightarrow> join ''/'' (replicate (length f) ''..'' @ t))"

section \<open>File Categorizer: \<^verbatim>\<open>categorizeFiles\<close>\<close>

record categories =
  components :: "string list"
  pages :: "string list"
  api :: "string list"
  hooks :: "string list"
  utils :: "string list"
  tests :: "string list"
  styles :: "string list"
  config :: "string list"
  other :: "string list"

definition emptyCategories :: categories where
  "emptyCategories =
     \<lparr>components = [], pages = [], api = [], hooks = [], utils = [], tests = [],
      styles = [], config = [], other = []\<rparr>"

text \<open>
  The body of the loop over \<open>files\<close>. In the second condition \<^verbatim>\<open>&&\<close> binds tighter than
  \<^verbatim>\<open>||\<close>, so the extension test belongs to the \<^verbatim>\<open>app/\<close> alternative only. The two
  \<^verbatim>\<open>ext.match\<close> patterns end in \<^verbatim>\<open>$\<close>, so they test how the extension ends.
\<close>

definition categorizeFile :: "string \<Rightarrow> string \<Rightarrow> string \<Rightarrow> categories \<Rightarrow> categories" where
  "categorizeFile cwd projectDir file cats =
     (let relativePath = relative cwd projectDir file;
          ext = extname file;
          basename = basename file
      in if str_includes relativePath ''components/'' \<or> str_includes relativePath ''Components/''
         then cats\<lparr>components := components cats @ [relativePath]\<rparr>
         else if str_includes relativePath ''pages/'' \<or>
                 (str_includes relativePath ''app/'' \<and>
                  (endsWith ext ''.ts'' \<or> endsWith ext ''.tsx'' \<or>
                   endsWith ext ''.js'' \<or> endsWith ext ''.jsx''))
         then cats\<lparr>pages := pages cats @ [relativePath]\<rparr>
         else if str_includes relativePath ''api/'' \<or> str_includes relativePath ''server/'' \<or>
                 str_includes relativePath ''functions/''
         then cats\<lparr>api := api cats @ [relativePath]\<rparr>
         else if str_includes relativePath ''hooks/'' \<or> startsWith basename ''use''
         then cats\<lparr>hooks := hooks cats @ [relativePath]\<rparr>
         else if str_includes relativePath ''utils/'' \<or> str_includes relativePath ''lib/'' \<or>
                 str_includes relativePath ''helpers/''
         then cats\<lparr>utils := utils cats @ [relativePath]\<rparr>
         else if str_includes basename ''.test.'' \<or> str_includes basename ''.spec.'' \<or>
                 str_includes relativePath ''__tests__''
         then cats\<lparr>tests := tests cats @ [relativePath]\<rparr>
         else if endsWith ext ''.css'' \<or> endsWith ext ''.scss'' \<or>
                 endsWith ext ''.less'' \<or> endsWith ext ''.sass''
         then cats\<lparr>styles := styles cats @ [relativePath]\<rparr>
         else if str_includes basename ''config'' \<or> basename = ''tsconfig.json'' \<or>
                 startsWith basename ''.env''
         then cats\<lparr>config := config cats @ [relativePath]\<rparr>
         else cats\<lparr>other := other cats @ [relativePath]\<rparr>)"

definition categorizeFiles :: "string \<Rightarrow> string list \<Rightarrow> string \<Rightarrow> categories" where
  "categorizeFiles cwd files projectDir =
     fold (categorizeFile cwd projectDir) files emptyCategories"

section \<open>Convention Inferencer: \<^verbatim>\<open>analyzeNamingConventions\<close>\<close>

definition isUpper :: "char \<Rightarrow> bool" where
  "isUpper c = (c \<in> set ''ABCDEFGHIJKLMNOPQRSTUVWXYZ'')"

definition isLower :: "char \<Rightarrow> bool" where
  "isLower c = (c \<in> set ''abcdefghijklmnopqrstuvwxyz'')"

definition isDigit :: "char \<Rightarrow> bool" where
  "isDigit c = (c \<in> set ''0123456789'')"

text \<open>\<^verbatim>\<open>/^[A-Z][a-zA-Z0-9]*$/\<close>\<close>

fun matchPascal :: "string \<Rightarrow> bool" where
  "matchPascal [] = False"
| "matchPascal (c # cs) = (isUpper c \<and> list_all (\<lambda>d. isLower d \<or> isUpper d \<or> isDigit d) cs)"

text \<open>\<^verbatim>\<open>/^[a-z][a-zA-Z0-9]*$/\<close>\<close>

fun matchCamel :: "string \<Rightarrow> bool" where
  "matchCamel [] = False"
| "matchCamel (c # cs) = (isLower c \<and> list_all (\<lambda>d. isLower d \<or> isUpper d \<or> isDigit d) cs)"

text \<open>\<^verbatim>\<open>/^[a-z][a-z0-9-]*$/\<close>\<close>

fun matchKebab :: "string \<Rightarrow> bool" where
  "matchKebab [] = False"
| "matchKebab (c # cs) = (isLower c \<and> list_all (\<lambda>d. isLower d \<or> isDigit d \<or> d = CHR ''-'') cs)"

record conventions =
  componentStyle :: "string option"
  fileExtension :: "string option"
  testNaming :: "string option"
  indexFiles :: bool
  barrelExports :: bool

text \<open>The eight counters that the loop over \<open>files\<close> updates.\<close>

record counters =
  pascalCount :: nat
  camelCount :: nat
  kebabCount :: nat
  tsxCount :: nat
  jsxCount :: nat
  testCount :: nat
  specCount :: nat
  indexCount :: nat

definition zeroCounters :: counters where
  "zeroCounters =
     \<lparr>pascalCount = 0, camelCount = 0, kebabCount = 0, tsxCount = 0, jsxCount = 0,
      testCount = 0, specCount = 0, indexCount = 0\<rparr>"

text \<open>One iteration of the loop: four independent statements, executed in this order.\<close>

definition countFile :: "string \<Rightarrow> counters \<Rightarrow> counters" where
  "countFile file k =
     (let basename = basename_ext file (extname file);
          ext = extname file;
          k1 = (if matchPascal basename then k\<lparr>pascalCount := pascalCount k + 1\<rparr>
                else if matchCamel basename then k\<lparr>camelCount := camelCount k + 1\<rparr>
                else if matchKebab basename then k\<lparr>kebabCount := kebabCount k + 1\<rparr>
                else k);
          k2 = (if ext = ''.tsx'' then k1\<lparr>tsxCount := tsxCount k1 + 1\<rparr>
                else if ext = ''.jsx'' then k1\<lparr>jsxCount := jsxCount k1 + 1\<rparr>
                else k1);
          k3 = (if str_includes file ''.test.'' then k2\<lparr>testCount := testCount k2 + 1\<rparr>
                else if str_includes file ''.spec.'' then k2\<lparr>specCount := specCount k2 + 1\<rparr>
                else k2)
      in if basename = ''index'' then k3\<lparr>indexCount := indexCount k3 + 1\<rparr> else k3)"

text \<open>
  The decision after the loop. \<open>componentStyle\<close> keeps its initial \<^verbatim>\<open>null\<close> when none of
  the three conditions holds; the other four fields are always assigned.
\<close>

definition analyzeNamingConventions :: "string list \<Rightarrow> conventions" where
  "analyzeNamingConventions files =
     (let k = fold countFile files zeroCounters
      in \<lparr>componentStyle =
             (if pascalCount k > camelCount k \<and> pascalCount k > kebabCount k
              then Some ''PascalCase''
              else if camelCount k > pascalCount k \<and> camelCount k > kebabCount k
              then Some ''camelCase''
              else if kebabCount k > 0 then Some ''kebab-case''
              else None),
          fileExtension = Some (if tsxCount k > jsxCount k then ''.tsx'' else ''.jsx''),
          testNaming = Some (if testCount k \<ge> specCount k then ''.test.'' else ''.spec.''),
          indexFiles = (indexCount k > 5),
          barrelExports = (indexCount k > 10)\<rparr>)"

section \<open>JSON values as the engine sees them\<close>

text \<open>
  What \<^verbatim>\<open>JSON.parse\<close> returns, and \<^verbatim>\<open>undefined\<close>. A number is represented by its
  decimal rendering (what \<^verbatim>\<open>String(n)\<close> gives, \<^verbatim>\<open>0\<close> for both zeros); an object by the
  list of its own properties in enumeration order, with distinct keys.
\<close>

datatype jsval =
    Undefined
  | JNull
  | JBool bool
  | JNum string
  | JStr string
  | JArr "jsval list"
  | JObj "(string \<times> jsval) list"

datatype error = TypeError | SyntaxError | IOError

text \<open>Truthiness, as \<^verbatim>\<open>if (v)\<close>, \<^verbatim>\<open>v || d\<close> and \<^verbatim>\<open>v && w\<close> test it.\<close>

fun truthy :: "jsval \<Rightarrow> bool" where
  "truthy Undefined = False"
| "truthy JNull = False"
| "truthy (JBool b) = b"
| "truthy (JNum n) = (n \<noteq> ''0'')"
| "truthy (JStr s) = (s \<noteq> [])"
| "truthy (JArr xs) = True"
| "truthy (JObj ps) = True"

text \<open>Decimal rendering of a natural number, as in \<^verbatim>\<open>`${xs.length}`\<close>.\<close>

definition digitChar :: "nat \<Rightarrow> char" where
  "digitChar d = ''0123456789'' ! d"

fun showNat :: "nat \<Rightarrow> string" where
  "showNat n = (if n < 10 then [digitChar n] else showNat (n div 10) @ [digitChar (n mod 10)])"

declare showNat.simps [simp del]

text \<open>
  The own enumerable properties of a value, as the spread \<^verbatim>\<open>{...v}\<close> and
  \<^verbatim>\<open>Object.entries(v)\<close> list them: the members of an object, the indexed elements of an
  array, the indexed characters of a string, nothing for the other values.
\<close>

fun ownProps :: "jsval \<Rightarrow> (string \<times> jsval) list" where
  "ownProps (JObj ps) = ps"
| "ownProps (JArr xs) = zip (map showNat [0..<length xs]) xs"
| "ownProps (JStr s) = zip (map showNat [0..<length s]) (map (\<lambda>c. JStr [c]) s)"
| "ownProps v = []"

text \<open>
  Reading a property \<^verbatim>\<open>v[k]\<close> or \<^verbatim>\<open>v.k\<close>. Reading from \<^verbatim>\<open>null\<close> or \<^verbatim>\<open>undefined\<close>
  throws; a key that is no own property gives \<^verbatim>\<open>undefined\<close> (none of the keys the engine
  reads is defined on a built-in prototype).
\<close>

fun getProp :: "jsval \<Rightarrow> string \<Rightarrow> error + jsval" where
  "getProp Undefined k = Inl TypeError"
| "getProp JNull k = Inl TypeError"
| "getProp v k = Inr (case map_of (ownProps v) k of None \<Rightarrow> Undefined | Some x \<Rightarrow> x)"

text \<open>\<^verbatim>\<open>Object.keys(v)\<close> and \<^verbatim>\<open>Object.entries(v)\<close> throw on \<^verbatim>\<open>null\<close> and \<^verbatim>\<open>undefined\<close>.\<close>

fun objectEntries :: "jsval \<Rightarrow> error + (string \<times> jsval) list" where
  "objectEntries Undefined = Inl TypeError"
| "objectEntries JNull = Inl TypeError"
| "objectEntries v = Inr (ownProps v)"

text \<open>
  Conversion to a string, as a template literal does it. An array joins the renderings of
  its elements with commas, \<^verbatim>\<open>null\<close> and \<^verbatim>\<open>undefined\<close> elements rendering as nothing. An
  object renders through \<^verbatim>\<open>Object.prototype.toString\<close>, unless an own member named
  \<^verbatim>\<open>toString\<close> hides that method: the member is no function, \<^verbatim>\<open>valueOf\<close> gives no
  primitive either, and the conversion throws.
\<close>

fun toStr :: "jsval \<Rightarrow> error + string"
  and joinElems :: "jsval list \<Rightarrow> error + string" where
  "toStr Undefined = Inr ''undefined''"
| "toStr JNull = Inr ''null''"
| "toStr (JBool b) = Inr (if b then ''true'' else ''false'')"
| "toStr (JNum n) = Inr n"
| "toStr (JStr s) = Inr s"
| "toStr (JArr xs) = joinElems xs"
| "toStr (JObj ps) =
     (if ''toString'' \<in> set (map fst ps) then Inl TypeError else Inr ''[object Object]'')"
| "joinElems [] = Inr []"
| "joinElems (x # xs) =
     (case (if x = Undefined \<or> x = JNull then Inr [] else toStr x) of
        Inl e \<Rightarrow> Inl e
      | Inr a \<Rightarrow>
          (if xs = [] then Inr a
           else (case joinElems xs of Inl e \<Rightarrow> Inl e | Inr b \<Rightarrow> Inr (a @ '','' @ b))))"

text \<open>
  The method call \<^verbatim>\<open>v.includes(s)\<close> on a truthy value: substring search on a string,
  membership on an array, and a \<^verbatim>\<open>TypeError\<close> on every other value, which has no such
  method.
\<close>

fun jsIncludes :: "jsval \<Rightarrow> string \<Rightarrow> error + bool" where
  "jsIncludes (JStr s) p = Inr (str_includes s p)"
| "jsIncludes (JArr xs) p = Inr (JStr p \<in> set xs)"
| "jsIncludes v p = Inl TypeError"

section \<open>Manifest Inspector: \<^verbatim>\<open>analyzePackageJson\<close>\<close>

text \<open>
  The state of \<^verbatim>\<open>package.json\<close> as the three calls \<^verbatim>\<open>fs.existsSync\<close>,
  \<^verbatim>\<open>fs.readFileSync\<close> and \<^verbatim>\<open>JSON.parse\<close> observe it.
\<close>

datatype manifest =
    NoFile
  | Unreadable
  | Malformed
  | Parsed jsval

record pkg_analysis =
  name :: jsval
  version :: jsval
  type :: jsval
  framework :: "string option"
  styling :: "string option"
  database :: "string option"
  testing :: "string option"
  linting :: "string option"
  buildTool :: "string option"
  deployment :: "string option"
  features :: "string list"
  scripts :: jsval
  keyDependencies :: "string list"

definition initialAnalysis :: pkg_analysis where
  "initialAnalysis =
     \<lparr>name = JNull, version = JNull, type = JNull, framework = None, styling = None,
      database = None, testing = None, linting = None, buildTool = None, deployment = None,
      features = [], scripts = JObj [], keyDependencies = []\<rparr>"

text \<open>
  Code inside a \<^verbatim>\<open>try\<close> block works on a mutable object and may throw half-way. A block
  is a function from the object to either \<open>Inr\<close> the object as the block leaves it, or
  \<open>Inl\<close> the error with the object as it was when the error was thrown.
\<close>

definition onThrow :: "error + 'a \<Rightarrow> 's \<Rightarrow> ('a \<Rightarrow> (error \<times> 's) + 't) \<Rightarrow> (error \<times> 's) + 't" where
  "onThrow r s f = (case r of Inl e \<Rightarrow> Inl (e, s) | Inr x \<Rightarrow> f x)"

definition andThen :: "(error \<times> 's) + 's \<Rightarrow> ('s \<Rightarrow> (error \<times> 's) + 's) \<Rightarrow> (error \<times> 's) + 's" where
  "andThen r f = (case r of Inl x \<Rightarrow> Inl x | Inr s \<Rightarrow> f s)"

text \<open>\<^verbatim>\<open>v || d\<close>\<close>

definition orElse :: "jsval \<Rightarrow> jsval \<Rightarrow> jsval" where
  "orElse v d = (if truthy v then v else d)"

text \<open>
  \<^verbatim>\<open>const deps = { ...pkg.dependencies, ...pkg.devDependencies }\<close>, as the lookup
  \<^verbatim>\<open>deps[k]\<close>: the second spread overrides the first.
\<close>

definition spreadDeps :: "jsval \<Rightarrow> jsval \<Rightarrow> string \<Rightarrow> jsval" where
  "spreadDeps dependencies devDependencies k =
     (case (map_of (ownProps dependencies) ++ map_of (ownProps devDependencies)) k of
        None \<Rightarrow> Undefined
      | Some v \<Rightarrow> v)"

text \<open>\<^verbatim>\<open>analysis.keyDependencies.push(`k@${deps[k]}`)\<close>\<close>

definition pushKeyDependency ::
  "string \<Rightarrow> (string \<Rightarrow> jsval) \<Rightarrow> pkg_analysis \<Rightarrow> (error \<times> pkg_analysis) + pkg_analysis" where
  "pushKeyDependency k deps a =
     onThrow (toStr (deps k)) a
       (\<lambda>s. Inr (a\<lparr>keyDependencies := keyDependencies a @ [k @ ''@'' @ s]\<rparr>))"

definition pushFeature :: "string \<Rightarrow> pkg_analysis \<Rightarrow> pkg_analysis" where
  "pushFeature f a = a\<lparr>features := features a @ [f]\<rparr>"

text \<open>Framework detection\<close>

definition detectFramework ::
  "(string \<Rightarrow> jsval) \<Rightarrow> pkg_analysis \<Rightarrow> (error \<times> pkg_analysis) + pkg_analysis" where
  "detectFramework deps a =
     (if truthy (deps ''next'')
      then pushKeyDependency ''next'' deps (a\<lparr>framework := Some ''Next.js''\<rparr>)
      else if truthy (deps ''remix'') \<or> truthy (deps ''@remix-run/react'')
      then Inr (a\<lparr>framework := Some ''Remix''\<rparr>)
      else if truthy (deps ''astro'') then Inr (a\<lparr>framework := Some ''Astro''\<rparr>)
      else if truthy (deps ''nuxt'') then Inr (a\<lparr>framework := Some ''Nuxt''\<rparr>)
      else if truthy (deps ''svelte'') \<or> truthy (deps ''@sveltejs/kit'')
      then Inr (a\<lparr>framework := Some ''SvelteKit''\<rparr>)
      else if truthy (deps ''gatsby'') then Inr (a\<lparr>framework := Some ''Gatsby''\<rparr>)
      else if truthy (deps ''react'')
      then Inr (a\<lparr>framework := Some (if truthy (deps ''vite'') then ''React (Vite)'' else ''React'')\<rparr>)
      else if truthy (deps ''vue'') then Inr (a\<lparr>framework := Some ''Vue''\<rparr>)
      else Inr a)"

text \<open>React version\<close>

definition detectReact ::
  "(string \<Rightarrow> jsval) \<Rightarrow> pkg_analysis \<Rightarrow> (error \<times> pkg_analysis) + pkg_analysis" where
  "detectReact deps a =
     (if truthy (deps ''react'')
      then andThen (pushKeyDependency ''react'' deps a)
        (\<lambda>a1. onThrow (jsIncludes (deps ''react'') ''19'') a1
           (\<lambda>is19. if is19 then Inr (pushFeature ''React 19'' a1)
                   else onThrow (jsIncludes (deps ''react'') ''canary'') a1
                     (\<lambda>isCanary. if isCanary then Inr (pushFeature ''React 19'' a1) else Inr a1)))
      else Inr a)"

text \<open>Styling detection\<close>

definition detectStyling ::
  "(string \<Rightarrow> jsval) \<Rightarrow> pkg_analysis \<Rightarrow> (error \<times> pkg_analysis) + pkg_analysis" where
  "detectStyling deps a =
     (if truthy (deps ''tailwindcss'')
      then pushKeyDependency ''tailwindcss'' deps (a\<lparr>styling := Some ''Tailwind CSS''\<rparr>)
      else if truthy (deps ''@mui/material'')
      then pushKeyDependency ''@mui/material'' deps (a\<lparr>styling := Some ''Material-UI''\<rparr>)
      else if truthy (deps ''styled-components'')
      then Inr (a\<lparr>styling := Some ''Styled Components''\<rparr>)
      else if truthy (deps ''@emotion/react'') then Inr (a\<lparr>styling := Some ''Emotion''\<rparr>)
      else if truthy (deps ''sass'') \<or> truthy (deps ''node-sass'')
      then Inr (a\<lparr>styling := Some ''Sass/SCSS''\<rparr>)
      else Inr a)"

text \<open>Database detection\<close>

definition detectDatabase ::
  "(string \<Rightarrow> jsval) \<Rightarrow> pkg_analysis \<Rightarrow> (error \<times> pkg_analysis) + pkg_analysis" where
  "detectDatabase deps a =
     (if truthy (deps ''@supabase/supabase-js'')
      then pushKeyDependency ''@supabase/supabase-js'' deps (a\<lparr>database := Some ''Supabase''\<rparr>)
      else if truthy (deps ''firebase'') then Inr (a\<lparr>database := Some ''Firebase''\<rparr>)
      else if truthy (deps ''@prisma/client'') then Inr (a\<lparr>database := Some ''Prisma''\<rparr>)
      else if truthy (deps ''drizzle-orm'') then Inr (a\<lparr>database := Some ''Drizzle''\<rparr>)
      else if truthy (deps ''mongoose'') then Inr (a\<lparr>database := Some ''MongoDB (Mongoose)''\<rparr>)
      else Inr a)"

text \<open>Testing detection\<close>

definition detectTesting :: "(string \<Rightarrow> jsval) \<Rightarrow> pkg_analysis \<Rightarrow> pkg_analysis" where
  "detectTesting deps a =
     (if truthy (deps ''vitest'') then a\<lparr>testing := Some ''Vitest''\<rparr>
      else if truthy (deps ''jest'') then a\<lparr>testing := Some ''Jest''\<rparr>
      else if truthy (deps ''@playwright/test'') then a\<lparr>testing := Some ''Playwright''\<rparr>
      else if truthy (deps ''cypress'') then a\<lparr>testing := Some ''Cypress''\<rparr>
      else a)"

text \<open>Linting detection\<close>

definition detectLinting :: "(string \<Rightarrow> jsval) \<Rightarrow> pkg_analysis \<Rightarrow> pkg_analysis" where
  "detectLinting deps a =
     (if truthy (deps ''eslint'')
      then (let a1 = a\<lparr>linting := Some ''ESLint''\<rparr>
            in if truthy (deps ''prettier'') then a1\<lparr>linting := Some (''ESLint'' @ '' + Prettier'')\<rparr>
               else a1)
      else if truthy (deps ''biome'') \<or> truthy (deps ''@biomejs/biome'')
      then a\<lparr>linting := Some ''Biome''\<rparr>
      else a)"

text \<open>Build tool detection\<close>

definition detectBuildTool :: "(string \<Rightarrow> jsval) \<Rightarrow> pkg_analysis \<Rightarrow> pkg_analysis" where
  "detectBuildTool deps a =
     (if truthy (deps ''turbo'') \<or> truthy (deps ''@turbo/gen'')
      then pushFeature ''Monorepo'' (a\<lparr>buildTool := Some ''Turborepo''\<rparr>)
      else if truthy (deps ''nx'') then pushFeature ''Monorepo'' (a\<lparr>buildTool := Some ''Nx''\<rparr>)
      else if truthy (deps ''vite'') then a\<lparr>buildTool := Some ''Vite''\<rparr>
      else if truthy (deps ''webpack'') then a\<lparr>buildTool := Some ''Webpack''\<rparr>
      else a)"

text \<open>Additional features: twelve independent tests, in this order.\<close>

definition featureIf :: "bool \<Rightarrow> string \<Rightarrow> pkg_analysis \<Rightarrow> pkg_analysis" where
  "featureIf c f a = (if c then pushFeature f a else a)"

definition detectFeatures :: "(string \<Rightarrow> jsval) \<Rightarrow> pkg_analysis \<Rightarrow> pkg_analysis" where
  "detectFeatures deps a =
     (let a1 = featureIf (truthy (deps ''@google/generative-ai'')) ''Google Gemini AI'' a;
          a2 = featureIf (truthy (deps ''openai'')) ''OpenAI API'' a1;
          a3 = featureIf (truthy (deps ''@anthropic-ai/sdk'')) ''Anthropic Claude'' a2;
          a4 = featureIf (truthy (deps ''storybook'') \<or> truthy (deps ''@storybook/react''))
                 ''Storybook'' a3;
          a5 = featureIf (truthy (deps ''three'') \<or> truthy (deps ''@react-three/fiber''))
                 ''Three.js/R3F'' a4;
          a6 = featureIf (truthy (deps ''framer-motion'')) ''Framer Motion'' a5;
          a7 = featureIf (truthy (deps ''react-query'') \<or> truthy (deps ''@tanstack/react-query''))
                 ''TanStack Query'' a6;
          a8 = featureIf (truthy (deps ''zustand'')) ''Zustand'' a7;
          a9 = featureIf (truthy (deps ''jotai'')) ''Jotai'' a8;
          a10 = featureIf (truthy (deps ''redux'') \<or> truthy (deps ''@reduxjs/toolkit''))
                  ''Redux'' a9;
          a11 = featureIf (truthy (deps ''zod'')) ''Zod validation'' a10
      in featureIf (truthy (deps ''react-hook-form'')) ''React Hook Form'' a11)"

text \<open>TypeScript\<close>

definition detectTypeScript ::
  "(string \<Rightarrow> jsval) \<Rightarrow> pkg_analysis \<Rightarrow> (error \<times> pkg_analysis) + pkg_analysis" where
  "detectTypeScript deps a =
     (if truthy (deps ''typescript'')
      then pushKeyDependency ''typescript'' deps (pushFeature ''TypeScript'' a)
      else Inr a)"

text \<open>The \<^verbatim>\<open>try\<close> block once \<^verbatim>\<open>JSON.parse\<close> has returned \<open>pkg\<close>.\<close>

definition inspectManifest :: "jsval \<Rightarrow> pkg_analysis \<Rightarrow> (error \<times> pkg_analysis) + pkg_analysis" where
  "inspectManifest pkg analysis =
     onThrow (getProp pkg ''dependencies'') analysis (\<lambda>dependencies.
     onThrow (getProp pkg ''devDependencies'') analysis (\<lambda>devDependencies.
     onThrow (getProp pkg ''name'') analysis (\<lambda>pkgName.
     onThrow (getProp pkg ''version'') analysis (\<lambda>pkgVersion.
     onThrow (getProp pkg ''type'') analysis (\<lambda>pkgType.
     onThrow (getProp pkg ''scripts'') analysis (\<lambda>pkgScripts.
       (let deps = spreadDeps dependencies devDependencies;
            a0 = analysis\<lparr>name := pkgName, version := pkgVersion,
                   type := orElse pkgType (JStr ''commonjs''),
                   scripts := orElse pkgScripts (JObj [])\<rparr>
        in andThen (detectFramework deps a0) (\<lambda>a1.
           andThen (detectReact deps a1) (\<lambda>a2.
           andThen (detectStyling deps a2) (\<lambda>a3.
           andThen (detectDatabase deps a3) (\<lambda>a4.
           detectTypeScript deps
             (detectFeatures deps (detectBuildTool deps (detectLinting deps
                (detectTesting deps a4)))))))))))))))"

definition tryBlock :: "manifest \<Rightarrow> pkg_analysis \<Rightarrow> (error \<times> pkg_analysis) + pkg_analysis" where
  "tryBlock m analysis =
     (case m of
        NoFile \<Rightarrow> Inl (IOError, analysis)
      | Unreadable \<Rightarrow> Inl (IOError, analysis)
      | Malformed \<Rightarrow> Inl (SyntaxError, analysis)
      | Parsed pkg \<Rightarrow> inspectManifest pkg analysis)"

text \<open>
  The whole function: the early return when the file does not exist, the \<^verbatim>\<open>try\<close> block,
  and the \<^verbatim>\<open>catch\<close> clause, which logs a warning and falls through to the final
  \<^verbatim>\<open>return analysis\<close>. \<open>Inl\<close> would be an exception leaving the function.
\<close>

definition analyzePackageJson :: "manifest \<Rightarrow> error + pkg_analysis" where
  "analyzePackageJson m =
     (let analysis = initialAnalysis
      in if m = NoFile then Inr analysis
         else (case tryBlock m analysis of
                 Inl (e, analysis') \<Rightarrow> Inr analysis'
               | Inr analysis' \<Rightarrow> Inr analysis'))"

section \<open>Tree Walker: \<^verbatim>\<open>scanDirectory\<close>\<close>

definition IGNORE_DIRS :: "string list" where
  "IGNORE_DIRS =
     [''node_modules'', ''.git'', ''.next'', ''.nuxt'', ''dist'', ''build'', ''out'', ''.cache'',
      ''coverage'', ''.turbo'', ''.vercel'']"

text \<open>
  A directory entry as \<^verbatim>\<open>fs.readdirSync(dir, { withFileTypes: true })\<close> returns it: its name
  and what \<^verbatim>\<open>entry.isDirectory()\<close> answers (false for a symbolic link). The file system is
  the function that answers \<^verbatim>\<open>readdirSync\<close> for each path: the entries, or the error thrown
  (permission denied, not a directory, no such directory).
\<close>

datatype dirent = Dirent (dirent_name: string) (isDirectory: bool)

type_synonym filesystem = "string \<Rightarrow> error + dirent list"

record scan_result =
  files :: "string list"
  dirs :: "string list"
  totalFiles :: nat
  totalDirs :: nat

definition emptyResults :: scan_result where
  "emptyResults = \<lparr>files = [], dirs = [], totalFiles = 0, totalDirs = 0\<rparr>"

text \<open>
  \<open>scanDirectory\<close> is the function, \<open>scanEntries\<close> the \<^verbatim>\<open>for\<close> loop inside its \<^verbatim>\<open>try\<close>
  block, working on the mutable \<open>results\<close>. The depth limit and the depth are natural
  numbers (\<^verbatim>\<open>main\<close> calls with the defaults 10 and 0); the recursion ends because the
  depth grows towards the limit, whatever the file system answers. An exception of the recursive call would leave
  the loop with the results collected so far; the \<^verbatim>\<open>catch\<close> clause ignores whatever was
  thrown and the function returns \<open>results\<close>.
\<close>

function scanDirectory :: "filesystem \<Rightarrow> string \<Rightarrow> nat \<Rightarrow> nat \<Rightarrow> error + scan_result"
  and scanEntries ::
    "filesystem \<Rightarrow> string \<Rightarrow> nat \<Rightarrow> nat \<Rightarrow> dirent list \<Rightarrow> scan_result
      \<Rightarrow> (error \<times> scan_result) + scan_result" where
  "scanDirectory readdirSync dir maxDepth currentDepth =
     (let results = emptyResults
      in if currentDepth \<ge> maxDepth then Inr results
         else (case (case readdirSync dir of
                       Inl e \<Rightarrow> Inl (e, results)
                     | Inr entries \<Rightarrow>
                         scanEntries readdirSync dir maxDepth currentDepth entries results) of
                 Inl (e, results') \<Rightarrow> Inr results'
               | Inr results' \<Rightarrow> Inr results'))"
| "scanEntries readdirSync dir maxDepth currentDepth [] results = Inr results"
| "scanEntries readdirSync dir maxDepth currentDepth (entry # entries) results =
     (let fullPath = pathJoin dir (dirent_name entry)
      in if isDirectory entry then
           (if dirent_name entry \<in> set IGNORE_DIRS \<or> startsWith (dirent_name entry) ''.''
            then scanEntries readdirSync dir maxDepth currentDepth entries results
            else
              (let results1 = results\<lparr>dirs := dirs results @ [fullPath],
                                totalDirs := totalDirs results + 1\<rparr>
               in case scanDirectory readdirSync fullPath maxDepth (currentDepth + 1) of
                    Inl e \<Rightarrow> Inl (e, results1)
                  | Inr subResults \<Rightarrow>
                      scanEntries readdirSync dir maxDepth currentDepth entries
                        (results1\<lparr>files := files results1 @ files subResults,
                                  dirs := dirs results1 @ dirs subResults,
                                  totalFiles := totalFiles results1 + totalFiles subResults,
                                  totalDirs := totalDirs results1 + totalDirs subResults\<rparr>)))
         else scanEntries readdirSync dir maxDepth currentDepth entries
                (results\<lparr>files := files results @ [fullPath],
                         totalFiles := totalFiles results + 1\<rparr>))"
  by pat_completeness auto
termination
  by (relation "measures
        [\<lambda>x. case x of
                Inl (fs, dir, maxDepth, currentDepth) \<Rightarrow> 2 * (maxDepth - currentDepth)
              | Inr (fs, dir, maxDepth, currentDepth, entries, results) \<Rightarrow>
                  (if currentDepth < maxDepth then 2 * (maxDepth - currentDepth) - 1 else 1),
         \<lambda>x. case x of
                Inl (fs, dir, maxDepth, currentDepth) \<Rightarrow> 0
              | Inr (fs, dir, maxDepth, currentDepth, entries, results) \<Rightarrow> length entries]")
    auto

section \<open>The assembled profile\<close>

text \<open>
  What the other analysers of \<^verbatim>\<open>main\<close> hand to the renderers. Values copied out of parsed
  JSON keep whatever shape the file gave them: the TypeScript options are \<^typ>\<open>jsval\<close>s.
\<close>

record tsconfig_analysis =
  strict :: jsval
  baseUrl :: jsval
  paths :: jsval
  target :: jsval
  jsx :: jsval

record readme_analysis =
  title :: "string option"
  description :: "string option"
  readme_length :: nat

text \<open>
  An entry of \<^verbatim>\<open>detectAgentConfigs\<close>: \<^verbatim>\<open>{ path, content, size }\<close>, or
  \<^verbatim>\<open>{ path, error }\<close> when the file could not be read.
\<close>

datatype agent_config =
    AgentFile string string nat
  | AgentError string string

fun config_path :: "agent_config \<Rightarrow> string" where
  "config_path (AgentFile p c n) = p"
| "config_path (AgentError p m) = p"

record key_files =
  readme_file :: bool
  contributing :: bool
  license :: bool
  changelog :: bool
  envExample :: bool
  docker :: bool
  cicd :: bool
  husky :: bool
  editorconfig :: bool
  nvmrc :: bool

record analysis =
  fileStructure :: scan_result
  categories :: "categories option"
  conventions :: "conventions option"
  packageJson :: pkg_analysis
  tsconfig :: "tsconfig_analysis option"
  projectConfig :: jsval
  agentConfigs :: "(string \<times> agent_config) list"
  readme :: "readme_analysis option"
  keyFiles :: key_files

text \<open>The table \<^verbatim>\<open>AGENTS\<close>: key, name and file of each known agent.\<close>

definition AGENTS :: "(string \<times> string \<times> string) list" where
  "AGENTS =
     [(''copilot'', ''GitHub Copilot'', ''.github/copilot-instructions.md''),
      (''claude'', ''Claude (Anthropic)'', ''CLAUDE.md''),
      (''cursor'', ''Cursor'', ''.cursorrules''),
      (''gemini'', ''Gemini (Google)'', ''.gemini/config.md''),
      (''codex'', ''Codex (OpenAI)'', ''.codex/AGENTS.md''),
      (''windsurf'', ''Windsurf/Codeium'', ''.windsurfrules'')]"

section \<open>Report Renderer\<close>

text \<open>
  Both renderers push lines onto an array and join them with a line feed. A template
  literal over a JSON value may throw, and the renderers catch nothing: the result is the
  text, or the error that leaves the function. The three non-ASCII characters of the
  engine's literals are written as their UTF-8 bytes.
\<close>

definition newline :: string where
  "newline = [CHR 0x0A]"

definition rightArrow :: string where
  "rightArrow = [CHR 0xE2, CHR 0x86, CHR 0x92]"

definition checkMark :: string where
  "checkMark = [CHR 0xE2, CHR 0x9C, CHR 0x85]"

definition crossMark :: string where
  "crossMark = [CHR 0xE2, CHR 0x9D, CHR 0x8C]"

text \<open>Truthiness of a field that is \<^verbatim>\<open>null\<close> or a string.\<close>

fun present :: "string option \<Rightarrow> bool" where
  "present None = False"
| "present (Some s) = (s \<noteq> [])"

text \<open>\<^verbatim>\<open>if (v) lines.push(`pre${v}post`)\<close> for such a field, as the lines pushed.\<close>

definition optLine :: "string \<Rightarrow> string option \<Rightarrow> string \<Rightarrow> string list" where
  "optLine pre v post =
     (case v of None \<Rightarrow> [] | Some s \<Rightarrow> if s \<noteq> [] then [pre @ s @ post] else [])"

text \<open>Running the parts of a renderer in order: the first error ends it.\<close>

fun collectLines :: "(error + string list) list \<Rightarrow> error + string list" where
  "collectLines [] = Inr []"
| "collectLines (r # rs) =
     (case r of
        Inl e \<Rightarrow> Inl e
      | Inr xs \<Rightarrow> (case collectLines rs of Inl e \<Rightarrow> Inl e | Inr ys \<Rightarrow> Inr (xs @ ys)))"

definition whenever :: "bool \<Rightarrow> (error + string list) \<Rightarrow> error + string list" where
  "whenever c r = (if c then r else Inr [])"

text \<open>One pushed line \<^verbatim>\<open>`pre${v}post`\<close>.\<close>

definition template :: "string \<Rightarrow> jsval \<Rightarrow> string \<Rightarrow> error + string list" where
  "template pre v post = (case toStr v of Inl e \<Rightarrow> Inl e | Inr s \<Rightarrow> Inr [pre @ s @ post])"

text \<open>\<^verbatim>\<open>analysis.readme?.description\<close>\<close>

definition readmeDescription :: "analysis \<Rightarrow> string option" where
  "readmeDescription a = (case readme a of None \<Rightarrow> None | Some r \<Rightarrow> description r)"

text \<open>\<^verbatim>\<open>Object.entries(analysis.categories)\<close>\<close>

definition categoryEntries :: "categories \<Rightarrow> (string \<times> string list) list" where
  "categoryEntries c =
     [(''components'', components c), (''pages'', pages c), (''api'', api c),
      (''hooks'', hooks c), (''utils'', utils c), (''tests'', tests c),
      (''styles'', styles c), (''config'', config c), (''other'', other c)]"

text \<open>
  \<^verbatim>\<open>(config.size / 1024).toFixed(1)\<close> for a size in bytes: the quotient is exact in
  floating point, and \<^verbatim>\<open>toFixed\<close> rounds it to the nearest tenth, a half upwards. An
  entry without a size gives \<^verbatim>\<open>NaN\<close>.
\<close>

fun sizeKB :: "agent_config \<Rightarrow> string" where
  "sizeKB (AgentFile p c n) =
     (let t = (n * 10 + 512) div 1024 in showNat (t div 10) @ ''.'' @ showNat (t mod 10))"
| "sizeKB (AgentError p m) = ''NaN''"

text \<open>\<^verbatim>\<open>keyFileLabels\<close>, each key with how \<^verbatim>\<open>analysis.keyFiles[key]\<close> reads it.\<close>

definition keyFileLabels :: "((key_files \<Rightarrow> bool) \<times> string) list" where
  "keyFileLabels =
     [(readme_file, ''README.md''), (contributing, ''CONTRIBUTING.md''), (license, ''LICENSE''),
      (changelog, ''CHANGELOG.md''), (envExample, ''Environment example''),
      (docker, ''Docker support''), (cicd, ''GitHub Actions CI/CD''),
      (husky, ''Git hooks (Husky)''), (editorconfig, ''EditorConfig''),
      (nvmrc, ''.nvmrc (Node version)'')]"

text \<open>
  \<^verbatim>\<open>analysis.tsconfig?.paths && Object.keys(analysis.tsconfig.paths).length > 0\<close>
\<close>

definition hasPathAliases :: "analysis \<Rightarrow> bool" where
  "hasPathAliases a =
     (case tsconfig a of
        None \<Rightarrow> False
      | Some t \<Rightarrow> truthy (paths t) \<and> ownProps (paths t) \<noteq> [])"

subsection \<open>\<^verbatim>\<open>generateAnalysisReport\<close>\<close>

text \<open>
  \<open>now\<close> is what \<^verbatim>\<open>new Date().toISOString()\<close> returns when the report is generated.
\<close>

definition overviewLines :: "analysis \<Rightarrow> error + string list" where
  "overviewLines a =
     collectLines
       [Inr [''## Project Overview'', []],
        whenever (truthy (name (packageJson a))) (template ''**Name:** '' (name (packageJson a)) []),
        Inr (optLine ''**Description:** '' (readmeDescription a) []),
        Inr (optLine ''**Framework:** '' (framework (packageJson a)) []),
        Inr (optLine ''**Styling:** '' (styling (packageJson a)) []),
        Inr (optLine ''**Database:** '' (database (packageJson a)) []),
        Inr [[]]]"

definition techStackLines :: "analysis \<Rightarrow> error + string list" where
  "techStackLines a =
     collectLines
       [Inr [''## Tech Stack'', []],
        whenever (keyDependencies (packageJson a) \<noteq> [])
          (Inr (''### Key Dependencies'' #
                map (\<lambda>dep. ''- '' @ dep) (keyDependencies (packageJson a)) @ [[]])),
        whenever (features (packageJson a) \<noteq> [])
          (Inr (''### Features'' #
                map (\<lambda>feature. ''- '' @ feature) (features (packageJson a)) @ [[]]))]"

definition structureLines :: "analysis \<Rightarrow> error + string list" where
  "structureLines a =
     collectLines
       [Inr [''## Project Structure'', [],
             ''- **Total Files:** '' @ showNat (totalFiles (fileStructure a)),
             ''- **Total Directories:** '' @ showNat (totalDirs (fileStructure a)),
             []],
        (case categories a of
           None \<Rightarrow> Inr []
         | Some c \<Rightarrow>
             Inr ([''### File Distribution'', [], ''| Category | Count |'',
                   ''|----------|-------|''] @
                  concat (map (\<lambda>(cat, fs).
                      if length fs > 0 then [''| '' @ cat @ '' | '' @ showNat (length fs) @ '' |'']
                      else [])
                    (categoryEntries c)) @
                  [[]]))]"

definition conventionLines :: "analysis \<Rightarrow> error + string list" where
  "conventionLines a =
     (case conventions a of
        None \<Rightarrow> Inr []
      | Some c \<Rightarrow>
          collectLines
            [Inr [''## Coding Conventions'', []],
             Inr (optLine ''- **Component Naming:** '' (componentStyle c) []),
             Inr (optLine ''- **File Extension:** '' (fileExtension c) []),
             Inr (optLine ''- **Test Naming:** '' (testNaming c) []),
             whenever (indexFiles c) (Inr [''- **Index Files:** Uses index.ts/js for exports'']),
             whenever (barrelExports c)
               (Inr [''- **Barrel Exports:** Uses barrel pattern extensively'']),
             Inr [[]]])"

text \<open>One line of the path alias list: \<^verbatim>\<open>paths[0]\<close> is read and rendered.\<close>

definition aliasLine :: "string \<times> jsval \<Rightarrow> error + string list" where
  "aliasLine entry =
     (case getProp (snd entry) ''0'' of
        Inl e \<Rightarrow> Inl e
      | Inr first \<Rightarrow> template (''  - `'' @ fst entry @ ''` '' @ rightArrow @ '' `'') first ''`'')"

definition tsconfigLines :: "analysis \<Rightarrow> error + string list" where
  "tsconfigLines a =
     (case tsconfig a of
        None \<Rightarrow> Inr []
      | Some t \<Rightarrow>
          collectLines
            [Inr [''## TypeScript Configuration'', [],
                  ''- **Strict Mode:** '' @ (if truthy (strict t) then ''Yes'' else ''No'')],
             whenever (truthy (baseUrl t)) (template ''- **Base URL:** '' (baseUrl t) []),
             (case objectEntries (paths t) of
                Inl e \<Rightarrow> Inl e
              | Inr entries \<Rightarrow>
                  whenever (length entries > 0)
                    (collectLines (Inr [''- **Path Aliases:**''] # map aliasLine entries))),
             Inr [[]]])"

definition keyFileLines :: "analysis \<Rightarrow> error + string list" where
  "keyFileLines a =
     Inr ([''## Project Setup'', []] @
          map (\<lambda>(key, label).
                 ''- '' @ (if key (keyFiles a) then checkMark else crossMark) @ '' '' @ label)
            keyFileLabels @
          [[]])"

text \<open>
  One agent of the section on agent configurations; \<^verbatim>\<open>AGENTS[key].name\<close> throws for a key
  that the table does not have.
\<close>

definition agentLines :: "string \<times> agent_config \<Rightarrow> error + string list" where
  "agentLines entry =
     (case map_of AGENTS (fst entry) of
        None \<Rightarrow> Inl TypeError
      | Some agent \<Rightarrow>
          Inr [''### '' @ fst agent,
               ''- **File:** `'' @ config_path (snd entry) @ ''`'',
               ''- **Size:** '' @ sizeKB (snd entry) @ '' KB'',
               []])"

definition agentConfigLines :: "analysis \<Rightarrow> error + string list" where
  "agentConfigLines a =
     whenever (length (agentConfigs a) > 0)
       (collectLines (Inr [''## Agent Configurations'', []] # map agentLines (agentConfigs a)))"

definition recommendations :: "analysis \<Rightarrow> string list" where
  "recommendations a =
     optLine ''- Framework-specific patterns for '' (framework (packageJson a)) [] @
     optLine ''- '' (styling (packageJson a)) '' component patterns and class naming'' @
     (if hasPathAliases a then [''- Import alias patterns (e.g., `@/components/...`)''] else []) @
     (case conventions a of
        None \<Rightarrow> []
      | Some c \<Rightarrow> optLine ''- '' (componentStyle c) '' naming convention for components'') @
     (case categories a of
        None \<Rightarrow> []
      | Some c \<Rightarrow>
          if length (api c) > 0 then [''- API route patterns and data fetching conventions'']
          else []) @
     optLine ''- Testing patterns using '' (testing (packageJson a)) []"

definition recommendationLines :: "analysis \<Rightarrow> error + string list" where
  "recommendationLines a =
     Inr ([''## Recommendations'', [],
           ''Based on this analysis, consider updating your agent configurations with:'', []] @
          recommendations a @
          (if length (recommendations a) = 0 then [''- No specific recommendations at this time.'']
           else []) @
          [[], ''---'', [],
           ''*Run `npx agents-analyze` again after making changes to update this report.*''])"

definition analysisReportLines :: "string \<Rightarrow> analysis \<Rightarrow> error + string list" where
  "analysisReportLines now a =
     collectLines
       [Inr [''# Project Analysis Report'', [],
             ''> Generated by `npx agents-analyze` on '' @ hd (split_chr CHR ''T'' now),
             []],
        overviewLines a, techStackLines a, structureLines a, conventionLines a,
        tsconfigLines a, keyFileLines a, agentConfigLines a, recommendationLines a]"

definition generateAnalysisReport :: "string \<Rightarrow> analysis \<Rightarrow> error + string" where
  "generateAnalysisReport now a =
     (case analysisReportLines now a of Inl e \<Rightarrow> Inl e | Inr ls \<Rightarrow> Inr (join newline ls))"

subsection \<open>\<^verbatim>\<open>generateProjectContext\<close>\<close>

definition identityLines :: "analysis \<Rightarrow> error + string list" where
  "identityLines a =
     collectLines
       [Inr [''## Project Identity'', []],
        whenever (truthy (name (packageJson a)))
          (template ''- **Name:** '' (name (packageJson a)) []),
        Inr (optLine ''- **Purpose:** '' (readmeDescription a) []),
        Inr [[]]]"

text \<open>The array \<open>stack\<close>: the fields that are set, then the TypeScript tag.\<close>

definition stack :: "analysis \<Rightarrow> string list" where
  "stack a =
     optLine [] (framework (packageJson a)) [] @
     optLine [] (styling (packageJson a)) [] @
     optLine [] (database (packageJson a)) [] @
     optLine [] (testing (packageJson a)) [] @
     (if ''TypeScript'' \<in> set (features (packageJson a)) then [''TypeScript''] else [])"

definition technologyLines :: "analysis \<Rightarrow> error + string list" where
  "technologyLines a =
     collectLines
       [Inr [''## Technology Stack'', [], join '' + '' (stack a), []],
        whenever (features (packageJson a) \<noteq> [])
          (Inr (''### Additional Libraries'' #
                map (\<lambda>feature. ''- '' @ feature) (features (packageJson a)) @ [[]]))]"

text \<open>
  A bullet that names a category's directory, \<^verbatim>\<open>xs[0].split('/')[0]\<close>, and one that
  only counts the category's files, each after the literal text \<open>label\<close> that opens it;
  nothing is pushed for an empty category.
\<close>

definition dirLine :: "string \<Rightarrow> string list \<Rightarrow> string list" where
  "dirLine label xs =
     (case xs of
        [] \<Rightarrow> []
      | first # rest \<Rightarrow>
          [label @ hd (split_chr CHR ''/'' first) @ ''/` ('' @ showNat (length xs) @
           '' files)''])"

definition countLine :: "string \<Rightarrow> string list \<Rightarrow> string list" where
  "countLine label xs =
     (if length xs > 0 then [label @ showNat (length xs) @ '' files''] else [])"

definition organizationLines :: "analysis \<Rightarrow> error + string list" where
  "organizationLines a =
     collectLines
       [Inr [''## File Organization'', []],
        (case categories a of
           None \<Rightarrow> Inr []
         | Some c \<Rightarrow>
             Inr (dirLine ''- **Components:** `'' (components c) @
                  dirLine ''- **Pages/Routes:** `'' (pages c) @
                  countLine ''- **API Routes:** '' (api c) @
                  countLine ''- **Custom Hooks:** '' (hooks c) @
                  countLine ''- **Utilities:** '' (utils c))),
        Inr [[]]]"

text \<open>\<^verbatim>\<open>v || d\<close> for a field that is \<^verbatim>\<open>null\<close> or a string.\<close>

definition orDefault :: "string option \<Rightarrow> string \<Rightarrow> string" where
  "orDefault v d = (case v of None \<Rightarrow> d | Some s \<Rightarrow> if s \<noteq> [] then s else d)"

definition standardLines :: "analysis \<Rightarrow> error + string list" where
  "standardLines a =
     collectLines
       [Inr [''## Coding Standards'', []],
        (case conventions a of
           None \<Rightarrow> Inr []
         | Some c \<Rightarrow>
             Inr [''- **Component naming:** '' @ orDefault (componentStyle c) ''PascalCase'',
                  ''- **File extension:** '' @ orDefault (fileExtension c) ''.tsx'',
                  ''- **Test files:** '' @ orDefault (testNaming c) ''.test.'']),
        whenever (case tsconfig a of None \<Rightarrow> False | Some t \<Rightarrow> truthy (strict t))
          (Inr [''- **TypeScript:** Strict mode enabled'']),
        whenever (hasPathAliases a)
          (Inr [''- **Import aliases:** Use `@/` prefix for src imports'']),
        Inr [[]]]"

definition importantScripts :: "string list" where
  "importantScripts = [''dev'', ''build'', ''start'', ''test'', ''lint'', ''format'']"

text \<open>One script of the list: \<^verbatim>\<open>scripts[script]\<close> is read, tested and rendered.\<close>

definition scriptLine :: "jsval \<Rightarrow> string \<Rightarrow> error + string list" where
  "scriptLine scr script =
     (case getProp scr script of
        Inl e \<Rightarrow> Inl e
      | Inr v \<Rightarrow> whenever (truthy v) (template (''- `npm run '' @ script @ ''` - '') v []))"

definition scriptLines :: "analysis \<Rightarrow> error + string list" where
  "scriptLines a =
     whenever (truthy (scripts (packageJson a)) \<and> ownProps (scripts (packageJson a)) \<noteq> [])
       (collectLines
          ([Inr [''## Available Scripts'', []]] @
           map (scriptLine (scripts (packageJson a))) importantScripts @
           [Inr [[]]]))"

definition projectContextLines :: "analysis \<Rightarrow> error + string list" where
  "projectContextLines a =
     collectLines
       [Inr [''# Project Context'', [],
             ''> **This file provides project-specific context for AI coding assistants.**'',
             ''> Auto-generated by `npx agents-analyze`. Edit as needed.'',
             ''>'',
             ''> This file **extends** the general guidelines in [AGENTS.md](./AGENTS.md).'',
             ''> Project-specific patterns here override generic rules when they conflict.'',
             []],
        identityLines a, technologyLines a, organizationLines a, standardLines a,
        scriptLines a,
        Inr [''## Project-Specific Patterns'', [],
             ''<!-- Add project-specific patterns, conventions, and notes below -->'', [],
             ''- [ ] TODO: Document component composition patterns'',
             ''- [ ] TODO: Document state management approach'',
             ''- [ ] TODO: Document API/data fetching patterns'',
             ''- [ ] TODO: Document error handling conventions'',
             []]]"

definition generateProjectContext :: "analysis \<Rightarrow> error + string" where
  "generateProjectContext a =
     (case projectContextLines a of Inl e \<Rightarrow> Inl e | Inr ls \<Rightarrow> Inr (join newline ls))"

section \<open>Verifier: the framework check of \<^verbatim>\<open>verifyConfiguration\<close>\<close>

text \<open>\<^verbatim>\<open>s.toLowerCase()\<close> on the ASCII letters, which is all a framework label has.\<close>

definition lowerChar :: "char \<Rightarrow> char" where
  "lowerChar c =
     (case map_of (zip ''ABCDEFGHIJKLMNOPQRSTUVWXYZ'' ''abcdefghijklmnopqrstuvwxyz'') c of
        None \<Rightarrow> c
      | Some l \<Rightarrow> l)"

definition toLowerCase :: "string \<Rightarrow> string" where
  "toLowerCase s = map lowerChar s"

text \<open>
  \<^verbatim>\<open>analysis.packageJson.framework?.toLowerCase().split(' ')[0]\<close>: \<^verbatim>\<open>undefined\<close> for a
  framework that is \<^verbatim>\<open>null\<close>.
\<close>

definition detectedFramework :: "string option \<Rightarrow> string option" where
  "detectedFramework fw =
     (case fw of None \<Rightarrow> None | Some s \<Rightarrow> Some (hd (split_chr CHR '' '' (toLowerCase s))))"

text \<open>
  The last block of \<^verbatim>\<open>verifyConfiguration\<close>, ``Check for framework/styling mismatches'',
  as the list of warnings it pushes, from the persisted configuration
  \<^verbatim>\<open>analysis.projectConfig\<close> (\<open>persisted\<close>, \<^verbatim>\<open>null\<close> when there is none) and
  \<^verbatim>\<open>analysis.packageJson.framework\<close>. The argument of \<^verbatim>\<open>includes\<close> and the template
  literal both convert the persisted value to a string. The blocks before this one push
  their own findings and change nothing that this one reads.
\<close>

definition frameworkMismatch :: "jsval \<Rightarrow> string option \<Rightarrow> error + string list" where
  "frameworkMismatch persisted fw =
     (let project = (if persisted = JNull \<or> persisted = Undefined then Inr Undefined
                     else getProp persisted ''project'')
      in case project of
           Inl e \<Rightarrow> Inl e
         | Inr project \<Rightarrow>
             if truthy project then
               (case getProp project ''framework'' of
                  Inl e \<Rightarrow> Inl e
                | Inr configFramework \<Rightarrow>
                    (case detectedFramework fw of
                       None \<Rightarrow> Inr []
                     | Some detected \<Rightarrow>
                         if truthy configFramework \<and> detected \<noteq> [] then
                           (case toStr configFramework of
                              Inl e \<Rightarrow> Inl e
                            | Inr cf \<Rightarrow>
                                if \<not> str_includes detected cf
                                then Inr [''Framework mismatch: config says '' @ [CHR 0x27] @ cf @
                                          [CHR 0x27] @ '' but detected '' @ [CHR 0x27] @
                                          detected @ [CHR 0x27]]
                                else Inr [])
                         else Inr []))
             else Inr [])"

section \<open>The rendering step of \<^verbatim>\<open>main\<close>\<close>

text \<open>
  \<^verbatim>\<open>main\<close> renders both artifacts from the same profile, one after the other. \<open>now\<close> is the
  reading of the clock at that moment; only the full report looks at it.
\<close>

definition renderArtifacts :: "string \<Rightarrow> analysis \<Rightarrow> (error + string) \<times> (error + string)" where
  "renderArtifacts now a = (generateAnalysisReport now a, generateProjectContext a)"

section \<open>Vocabulary of the properties\<close>

text \<open>
  The object that a \<^verbatim>\<open>catch\<close> clause finds after its \<^verbatim>\<open>try\<close> block, whether the block ran to
  its end or threw.
\<close>

definition caught :: "(error \<times> 's) + 's \<Rightarrow> 's" where
  "caught r = (case r of Inl (e, s) \<Rightarrow> s | Inr s \<Rightarrow> s)"





definition tsxTally :: "string list \<Rightarrow> nat" where
  "tsxTally fs = length (filter (\<lambda>f. extname f = ''.tsx'') fs)"

definition jsxTally :: "string list \<Rightarrow> nat" where
  "jsxTally fs = length (filter (\<lambda>f. extname f = ''.jsx'') fs)"

definition testTally :: "string list \<Rightarrow> nat" where
  "testTally fs = length (filter (\<lambda>f. str_includes f ''.test.'') fs)"

definition specTally :: "string list \<Rightarrow> nat" where
  "specTally fs = length (filter (\<lambda>f. str_includes f ''.spec.'') fs)"

definition specOnlyTally :: "string list \<Rightarrow> nat" where
  "specOnlyTally fs =
     length (filter (\<lambda>f. str_includes f ''.spec.'' \<and> \<not> str_includes f ''.test.'') fs)"

text \<open>
  A project tree for the examples: \<^verbatim>\<open>/proj\<close> with the directories \<^verbatim>\<open>src\<close> and
  \<^verbatim>\<open>lib\<close>, one file in each, an ignored \<^verbatim>\<open>node_modules\<close>, a file \<^verbatim>\<open>package.json\<close>, and
  a directory \<^verbatim>\<open>secret\<close> that cannot be read, as no other path can.
\<close>

definition exampleTree :: filesystem where
  "exampleTree p =
     (if p = ''/proj'' then
        Inr [Dirent ''src'' True, Dirent ''secret'' True, Dirent ''node_modules'' True,
             Dirent ''package.json'' False, Dirent ''lib'' True]
      else if p = ''/proj/src'' then Inr [Dirent ''a.ts'' False]
      else if p = ''/proj/lib'' then Inr [Dirent ''c.ts'' False]
      else Inl IOError)"

text \<open>
  A profile for the examples: nothing was found, and none of the three convention fields
  has a value.
\<close>

definition exampleProfile :: analysis where
  "exampleProfile =
     \<lparr>fileStructure = emptyResults,
      categories = Some emptyCategories,
      conventions = Some \<lparr>componentStyle = None, fileExtension = None, testNaming = None,
                           indexFiles = False, barrelExports = False\<rparr>,
      packageJson = initialAnalysis,
      tsconfig = None,
      projectConfig = JNull,
      agentConfigs = [],
      readme = None,
      keyFiles = \<lparr>readme_file = False, contributing = False, license = False,
                   changelog = False, envExample = False, docker = False, cicd = False,
                   husky = False, editorconfig = False, nvmrc = False\<rparr>\<rparr>"

section \<open>Properties of the File Categorizer\<close>

lemma categorizeFile_components_mono:
  "set (components c) \<subseteq> set (components (categorizeFile cwd pd f c))"
  by (simp add: categorizeFile_def Let_def subset_insertI)

lemma categorizeFile_components_hit:
  "str_includes (relative cwd pd f) ''components/'' \<Longrightarrow>
   components (categorizeFile cwd pd f c) = components c @ [relative cwd pd f]"
  by (simp add: categorizeFile_def Let_def)

lemma categorizeFile_tests_cases:
  "tests (categorizeFile cwd pd f c) = tests c \<or>
   (tests (categorizeFile cwd pd f c) = tests c @ [relative cwd pd f] \<and>
    \<not> str_includes (relative cwd pd f) ''components/'')"
  by (simp add: categorizeFile_def Let_def)

lemma categorizeFile_tests:
  "r \<in> set (tests (categorizeFile cwd pd f c)) \<Longrightarrow>
   r \<in> set (tests c) \<or> \<not> str_includes r ''components/''"
  using categorizeFile_tests_cases [of cwd pd f c] by auto

lemma fold_components_mono:
  "set (components c) \<subseteq> set (components (fold (categorizeFile cwd pd) fs c))"
proof (induction fs arbitrary: c)
  case Nil
  show ?case by simp
next
  case (Cons f fs)
  have "set (components c) \<subseteq> set (components (categorizeFile cwd pd f c))"
    by (rule categorizeFile_components_mono)
  also have "\<dots> \<subseteq> set (components (fold (categorizeFile cwd pd) fs (categorizeFile cwd pd f c)))"
    by (rule Cons.IH)
  finally show ?case by simp
qed

lemma fold_components_hit:
  "f \<in> set fs \<Longrightarrow> str_includes (relative cwd pd f) ''components/'' \<Longrightarrow>
   relative cwd pd f \<in> set (components (fold (categorizeFile cwd pd) fs c))"
proof (induction fs arbitrary: c)
  case Nil
  then show ?case by simp
next
  case (Cons g fs)
  show ?case
  proof (cases "f = g")
    case True
    with Cons.prems have "relative cwd pd f \<in> set (components (categorizeFile cwd pd g c))"
      by (simp add: categorizeFile_components_hit)
    then show ?thesis
      using fold_components_mono [of "categorizeFile cwd pd g c" cwd pd fs] by auto
  next
    case False
    with Cons.prems have "f \<in> set fs" by simp
    then show ?thesis using Cons.IH Cons.prems(2) by simp
  qed
qed

lemma fold_tests:
  "r \<in> set (tests (fold (categorizeFile cwd pd) fs c)) \<Longrightarrow>
   r \<in> set (tests c) \<or> \<not> str_includes r ''components/''"
proof (induction fs arbitrary: c)
  case Nil
  then show ?case by simp
next
  case (Cons g fs)
  from Cons.prems
  have "r \<in> set (tests (fold (categorizeFile cwd pd) fs (categorizeFile cwd pd g c)))"
    by simp
  then have "r \<in> set (tests (categorizeFile cwd pd g c)) \<or> \<not> str_includes r ''components/''"
    by (rule Cons.IH)
  then show ?case using categorizeFile_tests by blast
qed

lemma button_test_relative:
  "relative ''/proj'' ''/proj'' ''/proj/src/components/Button.test.tsx'' =
     ''src/components/Button.test.tsx''"
  by (simp add: relative_def resolve_def)

text \<open>
  C1, as the code has it. The rule for the \<^verbatim>\<open>components/\<close> path segment is the first of
  the chain, before the rule for the test markers in the file name: every file of the list
  whose relative path contains \<^verbatim>\<open>components/\<close> is put into the bucket ``components'' and
  is not put into the bucket ``tests'', whatever its name. So both
  \<^verbatim>\<open>src/components/Button.tsx\<close> and \<^verbatim>\<open>src/components/Button.test.tsx\<close> are components.
\<close>

theorem components_rule_precedes_tests:
  assumes "f \<in> set fs"
    and "str_includes (relative cwd projectDir f) ''components/''"
  shows "relative cwd projectDir f \<in> set (components (categorizeFiles cwd fs projectDir))
       \<and> relative cwd projectDir f \<notin> set (tests (categorizeFiles cwd fs projectDir))"
proof
  show "relative cwd projectDir f \<in> set (components (categorizeFiles cwd fs projectDir))"
    unfolding categorizeFiles_def using assms by (rule fold_components_hit)
  show "relative cwd projectDir f \<notin> set (tests (categorizeFiles cwd fs projectDir))"
  proof
    assume "relative cwd projectDir f \<in> set (tests (categorizeFiles cwd fs projectDir))"
    then have "relative cwd projectDir f \<in> set (tests emptyCategories)
         \<or> \<not> str_includes (relative cwd projectDir f) ''components/''"
      unfolding categorizeFiles_def by (rule fold_tests)
    with assms(2) show False by (simp add: emptyCategories_def)
  qed
qed

theorem components_rule_precedes_tests_witness:
  "''src/components/Button.test.tsx'' \<in> set (components (categorizeFiles ''/proj''
       [''/proj/src/components/Button.tsx'', ''/proj/src/components/Button.test.tsx'',
        ''/proj/package.json''] ''/proj''))
   \<and> ''src/components/Button.test.tsx'' \<notin> set (tests (categorizeFiles ''/proj''
       [''/proj/src/components/Button.tsx'', ''/proj/src/components/Button.test.tsx'',
        ''/proj/package.json''] ''/proj''))"
  using components_rule_precedes_tests [of "''/proj/src/components/Button.test.tsx''"
      "[''/proj/src/components/Button.tsx'', ''/proj/src/components/Button.test.tsx'',
        ''/proj/package.json'']" "''/proj''" "''/proj''"]
  by (simp add: button_test_relative)

text \<open>
  The scenario of C1 as the specification words it: on the project with the two Button
  files and \<^verbatim>\<open>package.json\<close>, it is not the case that \<^verbatim>\<open>Button.tsx\<close> is a component and
  \<^verbatim>\<open>Button.test.tsx\<close> a test.
\<close>

theorem button_test_in_tests_counterexample:
  "\<not> (''src/components/Button.tsx'' \<in> set (components (categorizeFiles ''/proj''
         [''/proj/src/components/Button.tsx'', ''/proj/src/components/Button.test.tsx'',
          ''/proj/package.json''] ''/proj''))
      \<and> ''src/components/Button.test.tsx'' \<in> set (tests (categorizeFiles ''/proj''
         [''/proj/src/components/Button.tsx'', ''/proj/src/components/Button.test.tsx'',
          ''/proj/package.json''] ''/proj'')))"
  by code_simp

text \<open>The whole result on that project: both Button files are components.\<close>

lemma button_scenario:
  "categorizeFiles ''/proj''
     [''/proj/src/components/Button.tsx'', ''/proj/src/components/Button.test.tsx'',
      ''/proj/package.json''] ''/proj''
   = emptyCategories
       \<lparr>components := [''src/components/Button.tsx'', ''src/components/Button.test.tsx''],
        other := [''package.json'']\<rparr>"
  by code_simp

section \<open>Properties of the Convention Inferencer\<close>






lemma countFile_tsx:
  "tsxCount (countFile f k) = tsxCount k + (if extname f = ''.tsx'' then 1 else 0)"
  by (simp add: countFile_def Let_def)

lemma countFile_jsx:
  "jsxCount (countFile f k) = jsxCount k + (if extname f = ''.jsx'' then 1 else 0)"
  by (simp add: countFile_def Let_def)

lemma countFile_test:
  "testCount (countFile f k) = testCount k + (if str_includes f ''.test.'' then 1 else 0)"
  by (simp add: countFile_def Let_def)

lemma countFile_spec:
  "specCount (countFile f k) = specCount k +
     (if str_includes f ''.spec.'' \<and> \<not> str_includes f ''.test.'' then 1 else 0)"
  by (simp add: countFile_def Let_def)




lemma fold_tsx: "tsxCount (fold countFile fs k) = tsxCount k + tsxTally fs"
  by (induction fs arbitrary: k) (simp_all add: tsxTally_def countFile_tsx)

lemma fold_jsx: "jsxCount (fold countFile fs k) = jsxCount k + jsxTally fs"
  by (induction fs arbitrary: k) (simp_all add: jsxTally_def countFile_jsx)

lemma fold_test: "testCount (fold countFile fs k) = testCount k + testTally fs"
  by (induction fs arbitrary: k) (simp_all add: testTally_def countFile_test)

lemma fold_spec: "specCount (fold countFile fs k) = specCount k + specOnlyTally fs"
  by (induction fs arbitrary: k) (simp_all add: specOnlyTally_def countFile_spec)

lemma specOnly_le_spec: "specOnlyTally fs \<le> specTally fs"
  by (induction fs) (simp_all add: specOnlyTally_def specTally_def)






text \<open>
  C7, as the code has it. For every file list the extension preference is decided by the
  tallies of \<^verbatim>\<open>.tsx\<close> and \<^verbatim>\<open>.jsx\<close>: \<^verbatim>\<open>.tsx\<close> is chosen when its count is strictly
  higher, and \<^verbatim>\<open>.jsx\<close> otherwise, so that an equal count gives the second extension.
\<close>

theorem extension_preference:
  "fileExtension (analyzeNamingConventions fs) =
     Some (if tsxTally fs > jsxTally fs then ''.tsx'' else ''.jsx'')"
  by (simp add: analyzeNamingConventions_def Let_def fold_tsx fold_jsx zeroCounters_def)

text \<open>
  C7 as the specification words it fails on one file of each extension: the counts are
  equal and the preference is not \<^verbatim>\<open>.tsx\<close>.
\<close>

theorem extension_tie_counterexample:
  "tsxTally [''/proj/src/App.tsx'', ''/proj/src/Legacy.jsx''] =
     jsxTally [''/proj/src/App.tsx'', ''/proj/src/Legacy.jsx''] \<and>
   fileExtension (analyzeNamingConventions [''/proj/src/App.tsx'', ''/proj/src/Legacy.jsx''])
     \<noteq> Some ''.tsx''"
  by code_simp

text \<open>
  C8. For every file list the test-naming preference is \<^verbatim>\<open>.test.\<close> whenever the files
  with that marker are at least as many as the files with \<^verbatim>\<open>.spec.\<close>, and it is
  \<^verbatim>\<open>.spec.\<close> only when the files with \<^verbatim>\<open>.spec.\<close> are strictly more. The loop counts a
  file that has both markers for \<^verbatim>\<open>.test.\<close> only, and the decision is exactly the
  comparison of its two counters, with the tie going to \<^verbatim>\<open>.test.\<close>.
\<close>

theorem test_naming_preference:
  "testNaming (analyzeNamingConventions fs) =
     Some (if testTally fs \<ge> specOnlyTally fs then ''.test.'' else ''.spec.'')
   \<and> (testTally fs \<ge> specTally fs \<longrightarrow>
        testNaming (analyzeNamingConventions fs) = Some ''.test.'')
   \<and> (testNaming (analyzeNamingConventions fs) = Some ''.spec.'' \<longrightarrow>
        specTally fs > testTally fs)"
proof -
  have eq: "testNaming (analyzeNamingConventions fs) =
     Some (if testTally fs \<ge> specOnlyTally fs then ''.test.'' else ''.spec.'')"
    by (simp add: analyzeNamingConventions_def Let_def fold_test fold_spec zeroCounters_def)
  have le: "specOnlyTally fs \<le> specTally fs" by (rule specOnly_le_spec)
  show ?thesis using eq le by (auto split: if_splits)
qed

theorem test_naming_preference_witness:
  "testTally [''/proj/a.test.ts'', ''/proj/b.spec.ts'']
     \<ge> specTally [''/proj/a.test.ts'', ''/proj/b.spec.ts'']
   \<and> testNaming (analyzeNamingConventions [''/proj/a.test.ts'', ''/proj/b.spec.ts''])
        = Some ''.test.''
   \<and> specTally [''/proj/a.test.ts'', ''/proj/b.spec.ts'', ''/proj/c.spec.ts'']
        > testTally [''/proj/a.test.ts'', ''/proj/b.spec.ts'', ''/proj/c.spec.ts'']
   \<and> testNaming (analyzeNamingConventions
          [''/proj/a.test.ts'', ''/proj/b.spec.ts'', ''/proj/c.spec.ts''])
        = Some ''.spec.''"
proof -
  have t1: "testTally [''/proj/a.test.ts'', ''/proj/b.spec.ts''] = 1" by code_simp
  have s1: "specTally [''/proj/a.test.ts'', ''/proj/b.spec.ts''] = 1" by code_simp
  have o1: "specOnlyTally [''/proj/a.test.ts'', ''/proj/b.spec.ts''] = 1" by code_simp
  have t2: "testTally [''/proj/a.test.ts'', ''/proj/b.spec.ts'', ''/proj/c.spec.ts''] = 1"
    by code_simp
  have s2: "specTally [''/proj/a.test.ts'', ''/proj/b.spec.ts'', ''/proj/c.spec.ts''] = 2"
    by code_simp
  have o2: "specOnlyTally [''/proj/a.test.ts'', ''/proj/b.spec.ts'', ''/proj/c.spec.ts''] = 2"
    by code_simp
  show ?thesis
    using test_naming_preference [of "[''/proj/a.test.ts'', ''/proj/b.spec.ts'']"]
      test_naming_preference [of "[''/proj/a.test.ts'', ''/proj/b.spec.ts'', ''/proj/c.spec.ts'']"]
    by (simp add: t1 s1 o1 t2 s2 o2)
qed

section \<open>Properties of the Manifest Inspector\<close>

lemma caught_Inr [simp]: "caught (Inr s) = s"
  by (simp add: caught_def)

lemma caught_Inl [simp]: "caught (Inl (e, s)) = s"
  by (simp add: caught_def)

lemma caught_andThen:
  "caught (andThen r f) = (case r of Inl (e, s) \<Rightarrow> s | Inr s \<Rightarrow> caught (f s))"
  by (simp add: andThen_def split: sum.splits prod.splits)


lemma analyzePackageJson_caught:
  "analyzePackageJson m =
     Inr (if m = NoFile then initialAnalysis else caught (tryBlock m initialAnalysis))"
  by (simp add: analyzePackageJson_def caught_def Let_def split: sum.splits prod.splits)























text \<open>
  A manifest whose \<^verbatim>\<open>react\<close> version is the number 19: the call of \<^verbatim>\<open>includes\<close> on it
  throws after the framework and the first key dependency were recorded, and the profile
  that is returned stops there.
\<close>

lemma partial_profile_example:
  "analyzePackageJson (Parsed (JObj [(''name'', JStr ''demo''), (''dependencies'',
      JObj [(''react'', JNum ''19''), (''tailwindcss'', JStr ''4.0.0'')])]))
   = Inr (initialAnalysis\<lparr>name := JStr ''demo'', version := Undefined,
           type := JStr ''commonjs'', framework := Some ''React'',
           keyDependencies := [''react@19'']\<rparr>)"
  by (simp add: analyzePackageJson_caught tryBlock_def inspectManifest_def onThrow_def
      andThen_def spreadDeps_def detectFramework_def detectReact_def pushKeyDependency_def
      orElse_def initialAnalysis_def)

text \<open>
  C5. For every state of the manifest file the Manifest Inspector returns a profile and
  raises nothing. A missing file gives the profile in which every field has its initial
  value (\<^verbatim>\<open>null\<close>, the empty list, the empty object); content that cannot be read or
  parsed, and the parsed value \<^verbatim>\<open>null\<close>, give that same profile.
\<close>

theorem manifest_inspector_never_raises:
  "(\<exists>a. analyzePackageJson m = Inr a)
   \<and> analyzePackageJson NoFile =
       Inr \<lparr>name = JNull, version = JNull, type = JNull, framework = None, styling = None,
            database = None, testing = None, linting = None, buildTool = None,
            deployment = None, features = [], scripts = JObj [], keyDependencies = []\<rparr>
   \<and> analyzePackageJson Malformed = analyzePackageJson NoFile
   \<and> analyzePackageJson Unreadable = analyzePackageJson NoFile
   \<and> analyzePackageJson (Parsed JNull) = analyzePackageJson NoFile"
  by (simp add: analyzePackageJson_caught tryBlock_def initialAnalysis_def inspectManifest_def
      onThrow_def)

section \<open>Properties of the Tree Walker\<close>

declare scanDirectory.simps [simp del] scanEntries.simps [simp del]






text \<open>
  In the example tree the directory \<^verbatim>\<open>secret\<close> cannot be read; the scan of \<^verbatim>\<open>/proj\<close>
  still lists the file of \<^verbatim>\<open>lib\<close>, which comes after it.
\<close>

lemma exampleTree_scan:
  "scanDirectory exampleTree ''/proj'' 10 0 =
     Inr \<lparr>files = [''/proj/src/a.ts'', ''/proj/package.json'', ''/proj/lib/c.ts''],
          dirs = [''/proj/src'', ''/proj/secret'', ''/proj/lib''],
          totalFiles = 3, totalDirs = 3\<rparr>"
  by (simp add: scanDirectory.simps scanEntries.simps exampleTree_def Let_def pathJoin_def
      normalize_def endsWith_def IGNORE_DIRS_def emptyResults_def)


section \<open>Properties of the Report Renderer\<close>

lemma collectLines_Cons_Inr:
  "collectLines (Inr xs # rs) =
     (case collectLines rs of Inl e \<Rightarrow> Inl e | Inr ys \<Rightarrow> Inr (xs @ ys))"
  by simp

lemma report_lines_shape:
  "analysisReportLines now a =
     (case collectLines [overviewLines a, techStackLines a, structureLines a, conventionLines a,
             tsconfigLines a, keyFileLines a, agentConfigLines a, recommendationLines a] of
        Inl e \<Rightarrow> Inl e
      | Inr ys \<Rightarrow>
          Inr ([''# Project Analysis Report'', [],
                ''> Generated by `npx agents-analyze` on '' @ hd (split_chr CHR ''T'' now),
                []] @ ys))"
  unfolding analysisReportLines_def by (rule collectLines_Cons_Inr)

lemma join_report_head:
  "join sep ([l1, [], l3, []] @ ys) = l1 @ sep @ sep @ l3 @ sep @ join sep ([] # ys)"
  by simp

text \<open>
  C4. Two renderings of the same profile, at whatever moments \<open>now1\<close> and \<open>now2\<close>, give
  the same condensed summary, byte for byte. The full report depends on the moment only
  through the date at the end of its third line: there is a body, the same for every
  moment, such that the report either fails with the body's error or is the two header
  lines, the line ``Generated by ... on'' with the date, and the body.
\<close>

theorem renderers_idempotent:
  "snd (renderArtifacts now1 a) = snd (renderArtifacts now2 a)
   \<and> (\<exists>body. \<forall>now. fst (renderArtifacts now a) =
         map_sum id
           (\<lambda>rest. ''# Project Analysis Report'' @ newline @ newline @
                   ''> Generated by `npx agents-analyze` on '' @ hd (split_chr CHR ''T'' now) @
                   newline @ rest)
           body)"
proof
  show "snd (renderArtifacts now1 a) = snd (renderArtifacts now2 a)"
    by (simp add: renderArtifacts_def)
  let ?sections = "collectLines [overviewLines a, techStackLines a, structureLines a,
      conventionLines a, tsconfigLines a, keyFileLines a, agentConfigLines a,
      recommendationLines a]"
  let ?body = "map_sum id (\<lambda>ys. join newline ([] # ys)) ?sections"
  have "\<forall>now. fst (renderArtifacts now a) =
         map_sum id
           (\<lambda>rest. ''# Project Analysis Report'' @ newline @ newline @
                   ''> Generated by `npx agents-analyze` on '' @ hd (split_chr CHR ''T'' now) @
                   newline @ rest)
           ?body"
  proof
    fix now
    show "fst (renderArtifacts now a) =
         map_sum id
           (\<lambda>rest. ''# Project Analysis Report'' @ newline @ newline @
                   ''> Generated by `npx agents-analyze` on '' @ hd (split_chr CHR ''T'' now) @
                   newline @ rest)
           ?body"
    proof (cases ?sections)
      case (Inl e)
      then show ?thesis
        by (simp add: renderArtifacts_def generateAnalysisReport_def report_lines_shape)
    next
      case (Inr ys)
      then show ?thesis
        by (simp only: renderArtifacts_def generateAnalysisReport_def report_lines_shape
            fst_conv sum.case map_sum.simps id_apply join_report_head append_assoc)
    qed
  qed
  then show "\<exists>body. \<forall>now. fst (renderArtifacts now a) =
         map_sum id
           (\<lambda>rest. ''# Project Analysis Report'' @ newline @ newline @
                   ''> Generated by `npx agents-analyze` on '' @ hd (split_chr CHR ''T'' now) @
                   newline @ rest)
           body"
    by (rule exI)
qed

lemma collectLines_part:
  "collectLines rs = Inr ls \<Longrightarrow> r \<in> set rs \<Longrightarrow>
   \<exists>xs before after. r = Inr xs \<and> ls = before @ xs @ after"
proof (induction rs arbitrary: ls)
  case Nil
  then show ?case by simp
next
  case (Cons q rs)
  from Cons.prems(1) obtain xs ys where q: "q = Inr xs" and rest: "collectLines rs = Inr ys"
    and ls: "ls = xs @ ys"
    by (auto split: sum.splits)
  show ?case
  proof (cases "r = q")
    case True
    with q ls have "r = Inr xs \<and> ls = [] @ xs @ ys" by simp
    then show ?thesis by blast
  next
    case False
    with Cons.prems(2) have "r \<in> set rs" by simp
    from Cons.IH [OF rest this] obtain zs before after
      where "r = Inr zs" and "ys = before @ zs @ after" by blast
    with ls have "r = Inr zs \<and> ls = (xs @ before) @ zs @ after" by simp
    then show ?thesis by blast
  qed
qed

lemma standardLines_shape:
  "conventions a = Some c \<Longrightarrow>
   \<exists>more. standardLines a =
     Inr ([''## Coding Standards'', [],
           ''- **Component naming:** '' @ orDefault (componentStyle c) ''PascalCase'',
           ''- **File extension:** '' @ orDefault (fileExtension c) ''.tsx'',
           ''- **Test files:** '' @ orDefault (testNaming c) ''.test.''] @ more)"
  by (simp add: standardLines_def whenever_def)

text \<open>
  C10. When the profile has conventions and the condensed summary renders, its lines
  contain, one after the other, the heading of the coding standards, an empty line, and the
  three bullets for component naming, file extension and test files. None of the three is
  ever left out: a field that is \<^verbatim>\<open>null\<close> is rendered as \<^verbatim>\<open>PascalCase\<close>, \<^verbatim>\<open>.tsx\<close> and
  \<^verbatim>\<open>.test.\<close> respectively, and a field with a non-empty value as that value.
\<close>

theorem null_conventions_render_defaults:
  assumes "conventions a = Some c"
    and "generateProjectContext a = Inr summary"
  shows "\<exists>before n x t after.
           projectContextLines a =
             Inr (before @
                  [''## Coding Standards'', [],
                   ''- **Component naming:** '' @ n,
                   ''- **File extension:** '' @ x,
                   ''- **Test files:** '' @ t] @
                  after)
         \<and> summary = join newline
             (before @
                  [''## Coding Standards'', [],
                   ''- **Component naming:** '' @ n,
                   ''- **File extension:** '' @ x,
                   ''- **Test files:** '' @ t] @
                  after)
         \<and> (componentStyle c = None \<longrightarrow> n = ''PascalCase'')
         \<and> (fileExtension c = None \<longrightarrow> x = ''.tsx'')
         \<and> (testNaming c = None \<longrightarrow> t = ''.test.'')
         \<and> (\<forall>s. componentStyle c = Some s \<and> s \<noteq> [] \<longrightarrow> n = s)
         \<and> (\<forall>s. fileExtension c = Some s \<and> s \<noteq> [] \<longrightarrow> x = s)
         \<and> (\<forall>s. testNaming c = Some s \<and> s \<noteq> [] \<longrightarrow> t = s)"
proof -
  from assms(2) obtain ls where ls: "projectContextLines a = Inr ls"
    and joined: "summary = join newline ls"
    by (auto simp: generateProjectContext_def split: sum.splits)
  have "standardLines a \<in> set
     [Inr [''# Project Context'', [],
             ''> **This file provides project-specific context for AI coding assistants.**'',
             ''> Auto-generated by `npx agents-analyze`. Edit as needed.'',
             ''>'',
             ''> This file **extends** the general guidelines in [AGENTS.md](./AGENTS.md).'',
             ''> Project-specific patterns here override generic rules when they conflict.'',
             []],
        identityLines a, technologyLines a, organizationLines a, standardLines a,
        scriptLines a,
        Inr [''## Project-Specific Patterns'', [],
             ''<!-- Add project-specific patterns, conventions, and notes below -->'', [],
             ''- [ ] TODO: Document component composition patterns'',
             ''- [ ] TODO: Document state management approach'',
             ''- [ ] TODO: Document API/data fetching patterns'',
             ''- [ ] TODO: Document error handling conventions'',
             []]]"
    by simp
  from collectLines_part [OF ls [unfolded projectContextLines_def] this]
  obtain xs before after where xs: "standardLines a = Inr xs" and split: "ls = before @ xs @ after"
    by blast
  from standardLines_shape [OF assms(1)] xs obtain more where
    "xs = [''## Coding Standards'', [],
           ''- **Component naming:** '' @ orDefault (componentStyle c) ''PascalCase'',
           ''- **File extension:** '' @ orDefault (fileExtension c) ''.tsx'',
           ''- **Test files:** '' @ orDefault (testNaming c) ''.test.''] @ more"
    by auto
  with split have "ls = before @
       [''## Coding Standards'', [],
           ''- **Component naming:** '' @ orDefault (componentStyle c) ''PascalCase'',
           ''- **File extension:** '' @ orDefault (fileExtension c) ''.tsx'',
           ''- **Test files:** '' @ orDefault (testNaming c) ''.test.''] @ (more @ after)"
    by simp
  with ls joined show ?thesis
    by (intro exI [of _ before] exI [of _ "orDefault (componentStyle c) ''PascalCase''"]
        exI [of _ "orDefault (fileExtension c) ''.tsx''"]
        exI [of _ "orDefault (testNaming c) ''.test.''"] exI [of _ "more @ after"])
      (simp add: orDefault_def)
qed

lemma exampleProfile_renders: "\<exists>text. generateProjectContext exampleProfile = Inr text"
  by (simp add: generateProjectContext_def projectContextLines_def identityLines_def
      technologyLines_def organizationLines_def standardLines_def scriptLines_def
      exampleProfile_def initialAnalysis_def whenever_def emptyCategories_def)

theorem null_conventions_render_defaults_witness:
  "\<exists>before after.
     projectContextLines exampleProfile =
       Inr (before @
            [''## Coding Standards'', [],
             ''- **Component naming:** PascalCase'',
             ''- **File extension:** .tsx'',
             ''- **Test files:** .test.''] @
            after)"
proof -
  have conv: "conventions exampleProfile =
      Some \<lparr>componentStyle = None, fileExtension = None, testNaming = None,
            indexFiles = False, barrelExports = False\<rparr>"
    by (simp add: exampleProfile_def)
  obtain summary where "generateProjectContext exampleProfile = Inr summary"
    using exampleProfile_renders by blast
  from null_conventions_render_defaults [OF conv this]
  obtain before n x t after where
    "projectContextLines exampleProfile =
       Inr (before @
            [''## Coding Standards'', [], ''- **Component naming:** '' @ n,
             ''- **File extension:** '' @ x, ''- **Test files:** '' @ t] @ after)"
    and "n = ''PascalCase''" and "x = ''.tsx''" and "t = ''.test.''"
    by auto
  then have "projectContextLines exampleProfile =
       Inr (before @
            [''## Coding Standards'', [],
             ''- **Component naming:** PascalCase'',
             ''- **File extension:** .tsx'',
             ''- **Test files:** .test.''] @
            after)"
    by simp
  then show ?thesis by blast
qed

section \<open>Properties of the Verifier\<close>

lemma lower_next: "hd (split_chr CHR '' '' (toLowerCase ''Next.js'')) = ''next.js''"
  by (simp add: toLowerCase_def lowerChar_def)

text \<open>
  C6, as the code has it. The check goes in one direction and lowercases one side only.
  For a persisted configuration whose project has a non-empty string as framework, and a
  detected label whose first word is not empty, there is no warning exactly when the
  persisted value, as it is written, occurs in the first space-separated word of the
  lowercased label; otherwise there is the one warning of a mismatch. So a persisted
  \<^verbatim>\<open>next\<close> is consistent with the detected label \<^verbatim>\<open>Next.js\<close>.
\<close>

theorem framework_check_one_directional:
  assumes "getProp persisted ''project'' = Inr project"
    and "truthy project"
    and "getProp project ''framework'' = Inr (JStr cf)"
    and "cf \<noteq> []"
    and "hd (split_chr CHR '' '' (toLowerCase label)) \<noteq> []"
  shows "frameworkMismatch persisted (Some label) =
     Inr (if str_includes (hd (split_chr CHR '' '' (toLowerCase label))) cf then []
          else [''Framework mismatch: config says '' @ [CHR 0x27] @ cf @ [CHR 0x27] @
                '' but detected '' @ [CHR 0x27] @
                hd (split_chr CHR '' '' (toLowerCase label)) @ [CHR 0x27]])"
proof -
  from assms(1) have "persisted \<noteq> JNull" "persisted \<noteq> Undefined" by auto
  with assms show ?thesis
    by (simp add: frameworkMismatch_def detectedFramework_def Let_def)
qed

theorem framework_check_one_directional_witness:
  "frameworkMismatch (JObj [(''project'', JObj [(''framework'', JStr ''next'')])])
     (Some ''Next.js'') = Inr []"
  using framework_check_one_directional [of
      "JObj [(''project'', JObj [(''framework'', JStr ''next'')])]"
      "JObj [(''framework'', JStr ''next'')]" "''next''" "''Next.js''"]
  by (simp add: lower_next)

text \<open>
  C6 as the specification words it fails when the persisted value is the detected label
  itself, \<^verbatim>\<open>Next.js\<close>: after lowercasing each string contains the other, and the check
  warns, because the persisted value is compared as it is written.
\<close>

theorem framework_label_itself_counterexample:
  "str_includes (toLowerCase ''Next.js'') (toLowerCase ''Next.js'') \<and>
   frameworkMismatch (JObj [(''project'', JObj [(''framework'', JStr ''Next.js'')])])
     (Some ''Next.js'')
   = Inr [''Framework mismatch: config says '' @ [CHR 0x27] @ ''Next.js'' @ [CHR 0x27] @
          '' but detected '' @ [CHR 0x27] @ ''next.js'' @ [CHR 0x27]]"
  by (simp add: frameworkMismatch_def detectedFramework_def Let_def lower_next
      toLowerCase_def lowerChar_def)

end
